theory Spec2Isabelle
  imports Complex_Main "HOL-Library.Sublist"
begin

section \<open>Python strings and POSIX paths\<close>

text \<open>
  A Python \<open>str\<close> is modelled as a \<open>string\<close> whose characters are the code points
  below 256. \<open>os.path\<close> is \<open>posixpath\<close>: the separator is \<open>/\<close>, there is no alternative
  separator, and the extension separator is \<open>.\<close>. A name that Python writes with a leading
  underscore (\<open>_GetOutputFilename\<close>) loses it here, since an Isabelle name cannot start
  with one.
\<close>

datatype py_error =
    NameError string
  | AttributeError string
  | IndexError
  | KeyError string
  | ZeroDivisionError
  | OSError string
  | RuntimeError string
  | Exception string

text \<open>\<open>str.isspace\<close> on one code point below 256.\<close>

definition py_isspace :: "char \<Rightarrow> bool" where
  "py_isspace c =
     (let n = of_char c :: nat
      in (9 \<le> n \<and> n \<le> 13) \<or> (28 \<le> n \<and> n \<le> 32) \<or> n = 133 \<or> n = 160)"

text \<open>\<open>str.strip()\<close> with no argument: whitespace goes from both ends.\<close>

definition strip :: "string \<Rightarrow> string" where
  "strip s = rev (dropWhile py_isspace (rev (dropWhile py_isspace s)))"

text \<open>
  \<open>str.rfind\<close> for a one-character needle: the highest index holding the character,
  or \<open>-1\<close>. The scan runs left to right and remembers the last hit.
\<close>

fun rfind_from :: "char \<Rightarrow> string \<Rightarrow> int \<Rightarrow> int \<Rightarrow> int" where
  "rfind_from c [] i r = r"
| "rfind_from c (x # xs) i r = rfind_from c xs (i + 1) (if x = c then i else r)"

definition rfind :: "string \<Rightarrow> char \<Rightarrow> int" where
  "rfind s c = rfind_from c s 0 (- 1)"

text \<open>
  The \<open>while\<close> loop of \<open>genericpath._splitext\<close>: is there a character other than the
  dot between \<open>filenameIndex\<close> and \<open>dotIndex\<close>?
\<close>

function skip_leading_dots :: "string \<Rightarrow> nat \<Rightarrow> nat \<Rightarrow> bool" where
  "skip_leading_dots p filenameIndex dotIndex =
     (if filenameIndex < dotIndex
      then (if take 1 (drop filenameIndex p) \<noteq> ''.'' then True
            else skip_leading_dots p (filenameIndex + 1) dotIndex)
      else False)"
  by pat_completeness auto
termination
  by (relation "measure (\<lambda>(p, f, d). d - f)") auto

declare skip_leading_dots.simps [simp del]

text \<open>\<open>os.path.splitext\<close>: the root and the extension of a path.\<close>

definition splitext :: "string \<Rightarrow> string \<times> string" where
  "splitext p =
     (let sepIndex = rfind p CHR ''/'';
          dotIndex = rfind p CHR ''.''
      in if dotIndex > sepIndex \<and> skip_leading_dots p (nat (sepIndex + 1)) (nat dotIndex)
         then (take (nat dotIndex) p, drop (nat dotIndex) p)
         else (p, ''''))"

text \<open>\<open>os.path.join\<close> of two parts.\<close>

definition join :: "string \<Rightarrow> string \<Rightarrow> string" where
  "join a b =
     (if take 1 b = ''/'' then b
      else if a = '''' \<or> (a \<noteq> [] \<and> last a = CHR ''/'') then a @ b
      else a @ ''/'' @ b)"

text \<open>\<open>os.path.basename\<close>: what follows the last separator.\<close>

definition basename :: "string \<Rightarrow> string" where
  "basename p = drop (nat (rfind p CHR ''/'' + 1)) p"

text \<open>\<open>str.split('/')\<close>: the pieces between separators; never the empty list.\<close>

fun split_sep :: "string \<Rightarrow> string list" where
  "split_sep [] = [[]]"
| "split_sep (c # cs) =
     (if c = CHR ''/'' then [] # split_sep cs
      else (case split_sep cs of
              [] \<Rightarrow> [[c]]
            | w # ws \<Rightarrow> (c # w) # ws))"

text \<open>\<open>'/'.join(comps)\<close>.\<close>

fun join_sep :: "string list \<Rightarrow> string" where
  "join_sep [] = ''''"
| "join_sep [w] = w"
| "join_sep (w # ws) = w @ ''/'' @ join_sep ws"

text \<open>One round of the \<open>for comp in comps\<close> loop of \<open>os.path.normpath\<close>.\<close>

definition normpath_step :: "nat \<Rightarrow> string list \<Rightarrow> string \<Rightarrow> string list" where
  "normpath_step initial_slashes new_comps component =
     (if component = '''' \<or> component = ''.'' then new_comps
      else if component \<noteq> ''..'' \<or> (initial_slashes = 0 \<and> new_comps = [])
                \<or> (new_comps \<noteq> [] \<and> last new_comps = ''..'')
           then new_comps @ [component]
      else if new_comps \<noteq> [] then butlast new_comps
      else new_comps)"

definition normpath :: "string \<Rightarrow> string" where
  "normpath path =
     (if path = '''' then ''.''
      else
        let initial_slashes =
              (if take 1 path = ''/''
               then (if take 2 path = ''//'' \<and> take 3 path \<noteq> ''///'' then 2 else 1)
               else (0::nat));
            comps = foldl (normpath_step initial_slashes) [] (split_sep path);
            joined = replicate initial_slashes CHR ''/'' @ join_sep comps
        in if joined = '''' then ''.'' else joined)"

section \<open>The file system\<close>

text \<open>
  What the code asks of the file system: whether a path exists, to create a directory
  with its parents (which the system may refuse), and to write a file (which it may
  refuse too). The per-directory configuration file holds a JSON object of strings; it is
  kept as the list of its entries.
\<close>

type_synonym json_object = "(string \<times> string) list"

record filesystem =
  paths :: "string set"
  mkdir_ok :: "string \<Rightarrow> bool"
  write_ok :: "string \<Rightarrow> bool"
  json_files :: "string \<Rightarrow> json_object option"

definition path_exists :: "filesystem \<Rightarrow> string \<Rightarrow> bool" where
  "path_exists fsys p = (p \<in> paths fsys)"

text \<open>\<open>os.makedirs\<close>: raises when the directory cannot be created.\<close>

definition makedirs :: "filesystem \<Rightarrow> string \<Rightarrow> py_error + filesystem" where
  "makedirs fsys p =
     (if path_exists fsys p then Inl (OSError p)
      else if mkdir_ok fsys p then Inr (fsys\<lparr>paths := insert p (paths fsys)\<rparr>)
      else Inl (OSError p))"

section \<open>mainmixalot: the asset type and the output path\<close>

record child_object =
  child_name :: string
  child_type :: string

text \<open>\<open>_CheckArmatureContainsMesh\<close>: the loop over \<open>obj.children\<close>.\<close>

fun CheckArmatureContainsMesh_loop :: "child_object list \<Rightarrow> bool" where
  "CheckArmatureContainsMesh_loop [] = False"
| "CheckArmatureContainsMesh_loop (childObj # rest) =
     (if child_type childObj = ''MESH'' then True
      else CheckArmatureContainsMesh_loop rest)"

text \<open>
  \<open>_GetOutputFilename\<close>. \<open>None\<close> for the file name or the directory is \<open>None\<close> here too.
  The function returns the path or \<open>None\<close>, and the file system after it; the bare
  \<open>except:\<close> around \<open>os.makedirs\<close> is the case on its outcome.
\<close>

definition GetOutputFilename ::
  "filesystem \<Rightarrow> bool \<Rightarrow> string option \<Rightarrow> string option \<Rightarrow> bool
     \<Rightarrow> string option \<times> filesystem" where
  "GetOutputFilename fsys isActor fbxFilename fbxOutputPath appendActorOrMotionPath =
     (let fbxFilename1 = (case fbxFilename of None \<Rightarrow> '''' | Some f \<Rightarrow> strip f);
          fbxOutputPath1 = (case fbxOutputPath of None \<Rightarrow> '''' | Some d \<Rightarrow> strip d)
      in if fbxFilename1 = '''' then (None, fsys)
         else
           let name = fst (splitext fbxFilename1);
               fbxFilename2 = name @ ''.fbx'';
               fbxOutputPath2 = (if fbxOutputPath1 = '''' then ''.'' else fbxOutputPath1);
               fbxOutputPath3 =
                 (if appendActorOrMotionPath
                  then (let dirToAppend = (if isActor then ''Actor'' else ''Motions'');
                            lastDir = basename (normpath fbxOutputPath2)
                        in if lastDir \<noteq> dirToAppend then join fbxOutputPath2 dirToAppend
                           else fbxOutputPath2)
                  else fbxOutputPath2)
           in if \<not> path_exists fsys fbxOutputPath3
              then (case makedirs fsys fbxOutputPath3 of
                      Inl e \<Rightarrow> (None, fsys)
                    | Inr fsys' \<Rightarrow> (Some (join fbxOutputPath3 fbxFilename2), fsys'))
              else (Some (join fbxOutputPath3 fbxFilename2), fsys))"

definition CheckArmatureContainsMesh :: "child_object list \<Rightarrow> bool" where
  "CheckArmatureContainsMesh children = CheckArmatureContainsMesh_loop children"

section \<open>The scene\<close>

text \<open>
  The part of Blender's state the two modules read and write: the file system, the
  images of \<open>bpy.data.images\<close>, the calls of the FBX export operator (path and
  \<open>path_mode\<close>), the files written by \<open>image.save()\<close>, and the rest of the scene, which
  only the conversion stages touch. An image has a name, may have its buffer loaded
  (\<open>has_data\<close>), may hold a packed file, and has the two path attributes the code
  reads and writes.
\<close>

record image =
  image_name :: string
  has_data :: bool
  packed :: bool
  filepath :: string
  filepath_raw :: string

record 'h blender =
  fs :: filesystem
  images :: "image list"
  exported :: "(string \<times> string) list"
  saved :: "string list"
  host :: 'h

text \<open>\<open>bpy.ops.export_scene.fbx\<close>: writes the file, or raises when it cannot.\<close>

definition export_scene_fbx ::
  "string \<Rightarrow> string \<Rightarrow> 'h blender \<Rightarrow> py_error + 'h blender" where
  "export_scene_fbx path path_mode w =
     (if write_ok (fs w) path
      then Inr (w\<lparr>fs := (fs w)\<lparr>paths := insert path (paths (fs w))\<rparr>,
                  exported := exported w @ [(path, path_mode)]\<rparr>)
      else Inl (RuntimeError path))"

text \<open>\<open>_ExportFbx\<close> of mainmixalot.\<close>

definition ExportFbx :: "string \<Rightarrow> 'h blender \<Rightarrow> py_error + 'h blender" where
  "ExportFbx fbxFilePath w = export_scene_fbx fbxFilePath ''COPY'' w"

text \<open>
  \<open>Convert\<close> is a generator; the model runs it to its end and returns the messages of the
  \<open>Status\<close> objects it yielded, its outcome (the exception that ended it, or the value it
  returned) and the scene it left. \<open>actormixalot.ProcessActor\<close> and
  \<open>motionmixalot.ProcessMotion\<close> are parameters: each yields messages, ends normally or
  with an exception, and leaves a scene.
\<close>

type_synonym ('a, 'h) stage = "'h blender \<Rightarrow> (string list \<times> (py_error + 'a)) \<times> 'h blender"

definition Convert ::
  "(child_object list \<Rightarrow> string \<Rightarrow> (unit, 'h) stage)
   \<Rightarrow> ('s \<Rightarrow> child_object list \<Rightarrow> string \<Rightarrow> string \<Rightarrow> real \<Rightarrow> bool \<Rightarrow> (unit, 'h) stage)
   \<Rightarrow> 's \<Rightarrow> child_object list \<Rightarrow> string option \<Rightarrow> string option \<Rightarrow> real
   \<Rightarrow> string option \<Rightarrow> string option \<Rightarrow> bool \<Rightarrow> bool \<Rightarrow> (int, 'h) stage" where
  "Convert ProcessActor ProcessMotion sceneObj armatureObj hipBoneName rootBoneName
           animationSampleRate fbxFilename fbxOutputPath appendActorOrMotionPath dumpCSVs w =
     (let y1 = [''starting Convert''];
          hipBoneName1 = (case hipBoneName of None \<Rightarrow> '''' | Some h \<Rightarrow> strip h);
          rootBoneName1 = (case rootBoneName of None \<Rightarrow> '''' | Some r \<Rightarrow> strip r);
          hipBoneName2 = (if hipBoneName1 = '''' then ''Hips'' else hipBoneName1);
          rootBoneName2 = (if rootBoneName1 = '''' then ''root'' else rootBoneName1);
          isActor = CheckArmatureContainsMesh armatureObj;
          y2 = y1 @ [''Checked Asset Type. isActor='' @ (if isActor then ''True'' else ''False'')];
          (outputFilename, fs1) =
             GetOutputFilename (fs w) isActor fbxFilename fbxOutputPath appendActorOrMotionPath;
          w1 = w\<lparr>fs := fs1\<rparr>;
          y3 = y2 @ [''Processed output path strings''];
          ((statuses, outcome), w2) =
             (if isActor then ProcessActor armatureObj rootBoneName2 w1
              else ProcessMotion sceneObj armatureObj hipBoneName2 rootBoneName2
                     animationSampleRate dumpCSVs w1);
          y4 = y3 @ statuses
      in case outcome of
           Inl e \<Rightarrow> ((y4, Inl e), w2)
         | Inr _ \<Rightarrow>
             (let y5 = y4 @ [''Completed Asset Conversion.'']
              in case outputFilename of
                   None \<Rightarrow> ((y5, Inr 1), w2)
                 | Some f \<Rightarrow>
                     (case ExportFbx f w2 of
                        Inl e \<Rightarrow> ((y5, Inl e), w2)
                      | Inr w3 \<Rightarrow> ((y5 @ [''FBX Assert exported.''], Inr 1), w3))))"

section \<open>commonmixalot: the bone hierarchy\<close>

text \<open>
  An armature object: its bones (\<open>obj.data.bones\<close>), its edit bones
  (\<open>obj.data.edit_bones\<close>, filled while the object is in edit mode), the interaction
  mode and \<open>obj.scale[0]\<close>. Bone names are unique in an armature, so a parent is kept
  as its name.
\<close>

record bone =
  bone_name :: string
  parent :: "string option"
  tail :: "real \<times> real \<times> real"

datatype mode = OBJECT | EDIT | POSE

record armature =
  bones :: "bone list"
  edit_bones :: "bone list"
  mode :: mode
  scale_x :: real

text \<open>
  \<open>obj.data.bones\<close> lists the bones depth-first: a bone, then its descendants, then
  its next sibling. When edit mode is left Blender rebuilds the bones from the edit
  bones: the bones without a parent come in the order of the edit bones, and so do the
  children of each bone. In an armature every parent is a bone of the armature and no
  bone is its own ancestor, so the listing of the bones below the parent \<open>p\<close> takes
  at most as many levels as there are bones.
\<close>

fun relist :: "nat \<Rightarrow> bone list \<Rightarrow> string option \<Rightarrow> bone list" where
  "relist 0 ebones p = []"
| "relist (Suc k) ebones p =
     concat (map (\<lambda>b. b # relist k ebones (Some (bone_name b)))
                 (filter (\<lambda>b. parent b = p) ebones))"

definition depth_first :: "bone list \<Rightarrow> bone list" where
  "depth_first ebones = relist (length ebones) ebones None"

text \<open>
  \<open>bpy.ops.object.mode_set\<close> on the armature, taken to be the active object: entering
  edit mode builds the edit bones from the bones, in their order; leaving it writes them
  back, listed depth-first.
\<close>

definition mode_set :: "mode \<Rightarrow> armature \<Rightarrow> armature" where
  "mode_set m obj =
     (if mode obj = m then obj
      else if m = EDIT then obj\<lparr>edit_bones := bones obj, mode := EDIT\<rparr>
      else if mode obj = EDIT
           then obj\<lparr>bones := depth_first (edit_bones obj), edit_bones := [], mode := m\<rparr>
      else obj\<lparr>mode := m\<rparr>)"

text \<open>\<open>GetRootBone\<close>: the first bone without a parent, or \<open>None\<close>.\<close>

fun GetRootBone_loop :: "bone list \<Rightarrow> bone option" where
  "GetRootBone_loop [] = None"
| "GetRootBone_loop (b # rest) = (if parent b = None then Some b else GetRootBone_loop rest)"

definition GetRootBone :: "armature \<Rightarrow> bone option" where
  "GetRootBone obj = GetRootBone_loop (bones obj)"

text \<open>\<open>HasOnlyOneRootBone\<close>: the loop counts the bones without a parent.\<close>

fun HasOnlyOneRootBone_loop :: "bone list \<Rightarrow> nat \<Rightarrow> nat" where
  "HasOnlyOneRootBone_loop [] rootBoneCount = rootBoneCount"
| "HasOnlyOneRootBone_loop (b # rest) rootBoneCount =
     HasOnlyOneRootBone_loop rest (if parent b = None then rootBoneCount + 1 else rootBoneCount)"

definition HasOnlyOneRootBone :: "armature \<Rightarrow> bool" where
  "HasOnlyOneRootBone obj = (HasOnlyOneRootBone_loop (bones obj) 0 = 1)"

text \<open>\<open>HasRootMotionBone\<close>.\<close>

fun HasRootMotionBone_loop :: "bone list \<Rightarrow> string \<Rightarrow> bool" where
  "HasRootMotionBone_loop [] rootBoneName = False"
| "HasRootMotionBone_loop (b # rest) rootBoneName =
     (if parent b = None \<and> bone_name b = rootBoneName then True
      else HasRootMotionBone_loop rest rootBoneName)"

definition HasRootMotionBone :: "armature \<Rightarrow> string \<Rightarrow> bool" where
  "HasRootMotionBone obj rootBoneName = HasRootMotionBone_loop (bones obj) rootBoneName"

text \<open>
  The names bound in the module \<open>commonmixalot\<close> when one of its functions runs. A name is
  bound to the module \<open>commonmixalot\<close> itself or to something else. The module imports
  \<open>os\<close>, \<open>json\<close> and \<open>bpy\<close>, then every public name of \<open>mathutils\<close>, then defines its
  classes and functions; a later binding hides an earlier one. What \<open>mathutils\<close> exports
  is a parameter, as that module belongs to Blender. No built-in name matters here.
\<close>

datatype binding = CommonMixalot | Other

type_synonym namespace = "(string \<times> binding) list"

definition commonmixalot_globals :: "namespace \<Rightarrow> namespace" where
  "commonmixalot_globals mathutils_names =
     map (\<lambda>n. (n, Other))
       [''Axis'', ''Dump'', ''Status'', ''ApplyCurrentRotationAs000'', ''GetRootBone'',
        ''HasOnlyOneRootBone'', ''HasRootMotionBone'', ''GetRestPoseMatrixFromPoseBone'',
        ''GetPoseBoneFromArmature'', ''AddSiblingRootBone'', ''MakeParentBone'',
        ''_ExportFbxInternal'', ''_MakeFilePathForFBX'', ''_CreateTexturesSubdir'',
        ''_UnpackTextures'', ''ExportFBX'', ''GetFirstAmature'', ''_ClearCachedCollectionData'',
        ''_ClearOldAnimationData'', ''_ClearOldTextureData'', ''ImportFBX'', ''FbxProperties'',
        ''GetFbxExportPropertiesObj'', ''GetFbxExportProperty'', ''StoreFbxExportProperty'']
     @ mathutils_names
     @ map (\<lambda>n. (n, Other)) [''bpy'', ''json'', ''os'']"

text \<open>Reading a global name: the value bound to it, or \<open>NameError\<close>.\<close>

definition load_global :: "namespace \<Rightarrow> string \<Rightarrow> py_error + binding" where
  "load_global globals n =
     (case map_of globals n of None \<Rightarrow> Inl (NameError n) | Some v \<Rightarrow> Inr v)"

text \<open>
  \<open>ebones.new(boneName)\<close>: a new edit bone at the end of the collection, without a
  parent. Blender changes the name when it is taken; how it does so is the parameter
  \<open>unique_name\<close>.
\<close>

definition ebones_new :: "(string list \<Rightarrow> string \<Rightarrow> string) \<Rightarrow> bone list \<Rightarrow> string \<Rightarrow> bone list" where
  "ebones_new unique_name ebones boneName =
     ebones @ [\<lparr>bone_name = unique_name (map bone_name ebones) boneName,
                parent = None, tail = (0, 0, 0)\<rparr>]"

text \<open>
  \<open>AddSiblingRootBone\<close>. Its first statement reads the global \<open>cmn\<close> and then the
  attribute \<open>HasOnlyOneRootBone\<close> of its value, which only the module itself has among
  the values modelled. The result is the outcome and the armature as the call leaves it.
\<close>

definition AddSiblingRootBone ::
  "namespace \<Rightarrow> (string list \<Rightarrow> string \<Rightarrow> string) \<Rightarrow> armature \<Rightarrow> string
     \<Rightarrow> (py_error + unit) \<times> armature" where
  "AddSiblingRootBone mathutils_names unique_name obj boneName =
     (case load_global (commonmixalot_globals mathutils_names) ''cmn'' of
        Inl e \<Rightarrow> (Inl e, obj)
      | Inr Other \<Rightarrow> (Inl (AttributeError ''HasOnlyOneRootBone''), obj)
      | Inr CommonMixalot \<Rightarrow>
          (let hasOnlyOneRootBone = HasOnlyOneRootBone obj;
               hasRootMotionBone = HasRootMotionBone obj boneName
           in if hasOnlyOneRootBone \<and> hasRootMotionBone
              then (Inl (Exception ''Most likely this asset was already processed because it contains a single 'root' bone''), obj)
              else if hasRootMotionBone then (Inr (), obj)
              else
                (let obj1 = mode_set EDIT obj;
                     obj2 = obj1\<lparr>edit_bones := ebones_new unique_name (edit_bones obj1) boneName\<rparr>
                 in if scale_x obj2 = 0 then (Inl ZeroDivisionError, obj2)
                    else
                      (let boneSize = 1 / scale_x obj2;
                           n = length (edit_bones obj2) - 1;
                           newRootBone = (edit_bones obj2 ! n)\<lparr>tail := (0, - boneSize, 0)\<rparr>;
                           obj3 = obj2\<lparr>edit_bones := (edit_bones obj2)[n := newRootBone]\<rparr>
                       in (Inr (), mode_set OBJECT obj3)))))"

text \<open>
  \<open>bpy_prop_collection.find(key)\<close>: the index of the first item with that name, or
  \<open>-1\<close>.
\<close>

fun find_from :: "bone list \<Rightarrow> string \<Rightarrow> int \<Rightarrow> int" where
  "find_from [] key i = - 1"
| "find_from (b # rest) key i = (if bone_name b = key then i else find_from rest key (i + 1))"

definition ebones_find :: "bone list \<Rightarrow> string \<Rightarrow> int" where
  "ebones_find ebones key = find_from ebones key 0"

text \<open>
  \<open>collection[i]\<close> with an integer: a negative index counts from the end, as for a
  Python list; \<open>IndexError\<close> out of range. The result is the position read.
\<close>

definition subscript :: "'a list \<Rightarrow> int \<Rightarrow> py_error + nat" where
  "subscript xs i =
     (let n = int (length xs);
          j = (if i < 0 then i + n else i)
      in if 0 \<le> j \<and> j < n then Inr (nat j) else Inl IndexError)"

text \<open>
  Is the bone named \<open>a\<close> the bone named \<open>b\<close> or one of its ancestors? The walk up the
  parents takes at most as many steps as there are bones.
\<close>

fun reaches :: "bone list \<Rightarrow> nat \<Rightarrow> string \<Rightarrow> string \<Rightarrow> bool" where
  "reaches ebones 0 a b = (a = b)"
| "reaches ebones (Suc k) a b =
     (if a = b then True
      else (case find (\<lambda>x. bone_name x = b) ebones of
              None \<Rightarrow> False
            | Some x \<Rightarrow> (case parent x of None \<Rightarrow> False | Some p \<Rightarrow> reaches ebones k a p)))"

text \<open>
  Assigning \<open>EditBone.parent\<close>: Blender keeps the hierarchy a forest, and ignores an
  assignment that would make a bone its own ancestor.
\<close>

definition set_parent :: "bone list \<Rightarrow> nat \<Rightarrow> nat \<Rightarrow> bone list" where
  "set_parent ebones child par =
     (if reaches ebones (length ebones) (bone_name (ebones ! child)) (bone_name (ebones ! par))
      then ebones
      else ebones[child := (ebones ! child)\<lparr>parent := Some (bone_name (ebones ! par))\<rparr>])"

text \<open>
  \<open>MakeParentBone\<close>. In the assignment the right-hand side \<open>ebones[rootBoneIndex]\<close> is
  evaluated first, then \<open>ebones[childBoneIndex]\<close>. An exception leaves the armature in edit
  mode, with nothing written back to the bones.
\<close>

definition MakeParentBone :: "armature \<Rightarrow> string \<Rightarrow> string \<Rightarrow> (py_error + unit) \<times> armature" where
  "MakeParentBone obj parentBoneName childBoneName =
     (let obj1 = mode_set EDIT obj;
          ebones = edit_bones obj1;
          rootBoneIndex = ebones_find ebones parentBoneName;
          childBoneIndex = ebones_find ebones childBoneName
      in case subscript ebones rootBoneIndex of
           Inl e \<Rightarrow> (Inl e, obj1)
         | Inr par \<Rightarrow>
             (case subscript ebones childBoneIndex of
                Inl e \<Rightarrow> (Inl e, obj1)
              | Inr child \<Rightarrow>
                  (Inr (), mode_set OBJECT (obj1\<lparr>edit_bones := set_parent ebones child par\<rparr>))))"

section \<open>commonmixalot: export, textures and stored properties\<close>

text \<open>\<open>_ExportFbxInternal\<close>; the operator's default \<open>path_mode\<close> is \<open>AUTO\<close>.\<close>

definition ExportFbxInternal :: "string \<Rightarrow> 'h blender \<Rightarrow> py_error + 'h blender" where
  "ExportFbxInternal fbxFilePath w = export_scene_fbx fbxFilePath ''AUTO'' w"

text \<open>\<open>_MakeFilePathForFBX\<close>: the path or \<open>None\<close>, and the file system after it.\<close>

definition MakeFilePathForFBX :: "filesystem \<Rightarrow> string \<Rightarrow> string \<Rightarrow> string option \<times> filesystem" where
  "MakeFilePathForFBX fsys fbxFilename fbxOutputPath =
     (let name = fst (splitext fbxFilename);
          fbxFilename1 = name @ ''.fbx''
      in if \<not> path_exists fsys fbxOutputPath
         then (case makedirs fsys fbxOutputPath of
                 Inl e \<Rightarrow> (None, fsys)
               | Inr fsys' \<Rightarrow> (Some (join fbxOutputPath fbxFilename1), fsys'))
         else (Some (join fbxOutputPath fbxFilename1), fsys))"

text \<open>\<open>_CreateTexturesSubdir\<close>: the first loop looks for an image with data.\<close>

fun hasImage_loop :: "image list \<Rightarrow> bool" where
  "hasImage_loop [] = False"
| "hasImage_loop (im # rest) = (if \<not> has_data im then hasImage_loop rest else True)"

definition CreateTexturesSubdir ::
  "filesystem \<Rightarrow> image list \<Rightarrow> string \<Rightarrow> string \<Rightarrow> string \<times> filesystem" where
  "CreateTexturesSubdir fsys imgs outputDirectoryPath subdirName =
     (let hasImage = hasImage_loop imgs
      in if \<not> hasImage then (outputDirectoryPath, fsys)
         else
           (let finalDir = join outputDirectoryPath subdirName
            in if \<not> path_exists fsys finalDir
               then (case makedirs fsys finalDir of
                       Inl e \<Rightarrow> (outputDirectoryPath, fsys)
                     | Inr fsys' \<Rightarrow> (finalDir, fsys'))
               else (finalDir, fsys)))"

text \<open>
  Assigning \<open>image.filepath\<close> makes Blender reload the image: the buffer is freed, so
  \<open>has_data\<close> is false afterwards. Assigning \<open>image.filepath_raw\<close> changes the path
  and nothing else.
\<close>

definition assign_filepath :: "string \<Rightarrow> image \<Rightarrow> image" where
  "assign_filepath p im = im\<lparr>filepath := p, has_data := False\<rparr>"

definition assign_filepath_raw :: "string \<Rightarrow> image \<Rightarrow> image" where
  "assign_filepath_raw p im = im\<lparr>filepath_raw := p\<rparr>"

text \<open>
  \<open>image.save()\<close> needs the buffer: when it is not loaded Blender loads it from the
  packed file, or else from the file at the image's path, and \<open>save\<close> raises when there
  is neither. It then writes the image at its path, or raises when it cannot. The
  outcome is the error, or the image with its buffer loaded, the file system and the
  list of written files.
\<close>

definition image_save ::
  "image \<Rightarrow> filesystem \<times> string list \<Rightarrow> py_error + image \<times> filesystem \<times> string list" where
  "image_save im st =
     (case st of (fsys, written) \<Rightarrow>
        if \<not> (has_data im \<or> packed im \<or> path_exists fsys (filepath im))
        then Inl (RuntimeError (image_name im))
        else if write_ok fsys (filepath im)
        then Inr (im\<lparr>has_data := True\<rparr>,
                  fsys\<lparr>paths := insert (filepath im) (paths fsys)\<rparr>, written @ [filepath im])
        else Inl (RuntimeError (filepath im)))"

text \<open>
  The second loop of \<open>_UnpackTextures\<close>, over the images still to visit. It returns the
  outcome, those images as the loop leaves them, and the file system and written files.
  When \<open>save\<close> raises, the image keeps the output path that was assigned to it.
\<close>

fun UnpackTextures_loop ::
  "string \<Rightarrow> string \<Rightarrow> image list \<Rightarrow> filesystem \<times> string list
     \<Rightarrow> (py_error + unit) \<times> image list \<times> (filesystem \<times> string list)" where
  "UnpackTextures_loop outputDirectoryPath filenamePrefix [] st = (Inr (), [], st)"
| "UnpackTextures_loop outputDirectoryPath filenamePrefix (im # rest) st =
     (if \<not> has_data im
      then (case UnpackTextures_loop outputDirectoryPath filenamePrefix rest st of
              (r, rest', st') \<Rightarrow> (r, im # rest', st'))
      else
        (let originalFilepath = filepath im;
             originalFilepathRaw = filepath_raw im;
             originalImageFilename = basename (filepath im);
             newFilename = filenamePrefix @ ''_'' @ originalImageFilename;
             finalOutputPath = join outputDirectoryPath newFilename;
             im1 = assign_filepath_raw finalOutputPath (assign_filepath finalOutputPath im)
         in case image_save im1 st of
              Inl e \<Rightarrow> (Inl e, im1 # rest, st)
            | Inr (im2, st1) \<Rightarrow>
                (let im3 = assign_filepath_raw originalFilepathRaw
                             (assign_filepath originalFilepath im2)
                 in case UnpackTextures_loop outputDirectoryPath filenamePrefix rest st1 of
                      (r, rest', st') \<Rightarrow> (r, im3 # rest', st'))))"

text \<open>\<open>_UnpackTextures\<close>.\<close>

definition UnpackTextures :: "string \<Rightarrow> string \<Rightarrow> 'h blender \<Rightarrow> (py_error + unit) \<times> 'h blender" where
  "UnpackTextures outputDirectoryPath filenamePrefix w =
     (case CreateTexturesSubdir (fs w) (images w) outputDirectoryPath ''textures'' of
        (outputDirectoryPath1, fs1) \<Rightarrow>
          (case UnpackTextures_loop outputDirectoryPath1 filenamePrefix (images w) (fs1, saved w) of
             (r, imgs', (fs2, saved')) \<Rightarrow> (r, w\<lparr>fs := fs2, images := imgs', saved := saved'\<rparr>)))"

text \<open>\<open>ExportFBX\<close>.\<close>

definition ExportFBX ::
  "string \<Rightarrow> string \<Rightarrow> bool \<Rightarrow> 'h blender \<Rightarrow> (py_error + string) \<times> 'h blender" where
  "ExportFBX fbxFilename fbxOutputPath unpackTextures w =
     (case MakeFilePathForFBX (fs w) fbxFilename fbxOutputPath of
        (None, fs1) \<Rightarrow> (Inl (Exception ''Undefined output filename''), w\<lparr>fs := fs1\<rparr>)
      | (Some outputFilename, fs1) \<Rightarrow>
          (case ExportFbxInternal outputFilename (w\<lparr>fs := fs1\<rparr>) of
             Inl e \<Rightarrow> (Inl e, w\<lparr>fs := fs1\<rparr>)
           | Inr w1 \<Rightarrow>
               if unpackTextures
               then (let prefix = fst (splitext fbxFilename)
                     in case UnpackTextures fbxOutputPath prefix w1 of
                          (Inl e, w2) \<Rightarrow> (Inl e, w2)
                        | (Inr _, w2) \<Rightarrow> (Inr outputFilename, w2))
               else (Inr outputFilename, w1)))"

text \<open>
  The stored properties. \<open>json.dump\<close> followed by \<open>json.load\<close> gives back the object
  written, so the file is kept as that object. A path that exists and is no
  configuration file cannot be loaded.
\<close>

definition ConfigJson :: string where
  "ConfigJson = ''lumbermixalot-config.json''"

definition GetFbxExportPropertiesObj :: "filesystem \<Rightarrow> string \<Rightarrow> py_error + json_object option" where
  "GetFbxExportPropertiesObj fsys optionsFileDir =
     (let filename = join optionsFileDir ConfigJson
      in if \<not> path_exists fsys filename then Inr None
         else (case json_files fsys filename of
                 None \<Rightarrow> Inl (OSError filename)
               | Some obj \<Rightarrow> Inr (Some obj)))"

text \<open>\<open>GetFbxExportProperty\<close>: \<open>None\<close> and the empty object are both false for \<open>if obj\<close>.\<close>

definition GetFbxExportProperty :: "filesystem \<Rightarrow> string \<Rightarrow> string \<Rightarrow> py_error + string" where
  "GetFbxExportProperty fsys optionsFileDir property =
     (case GetFbxExportPropertiesObj fsys optionsFileDir of
        Inl e \<Rightarrow> Inl e
      | Inr None \<Rightarrow> Inr ''''
      | Inr (Some obj) \<Rightarrow>
          if obj \<noteq> []
          then (case map_of obj property of None \<Rightarrow> Inl (KeyError property) | Some v \<Rightarrow> Inr v)
          else Inr '''')"

text \<open>\<open>StoreFbxExportProperty\<close>: opening for writing truncates the file.\<close>

definition StoreFbxExportProperty ::
  "filesystem \<Rightarrow> string \<Rightarrow> string \<Rightarrow> string \<Rightarrow> py_error + filesystem" where
  "StoreFbxExportProperty fsys optionsFileDir property val =
     (let data = [(property, val)];
          filename = join optionsFileDir ConfigJson
      in if write_ok fsys filename
         then Inr (fsys\<lparr>paths := insert filename (paths fsys),
                        json_files := (json_files fsys)(filename \<mapsto> data)\<rparr>)
         else Inl (OSError filename))"

section \<open>Notions used in the statements\<close>

text \<open>
  The directory \<open>_GetOutputFilename\<close> looks for and creates: the stripped output path,
  \<open>.\<close> when that is empty, with the segment for the asset type joined to it when asked
  for and not already its last segment.
\<close>

definition output_directory :: "bool \<Rightarrow> string option \<Rightarrow> bool \<Rightarrow> string" where
  "output_directory isActor fbxOutputPath appendActorOrMotionPath =
     (let d = (case fbxOutputPath of None \<Rightarrow> '''' | Some p \<Rightarrow> strip p);
          d' = (if d = '''' then ''.'' else d);
          dirToAppend = (if isActor then ''Actor'' else ''Motions'')
      in if appendActorOrMotionPath \<and> basename (normpath d') \<noteq> dirToAppend
         then join d' dirToAppend else d')"

text \<open>The file name \<open>_GetOutputFilename\<close> puts at the end of the path.\<close>

definition output_name :: "string \<Rightarrow> string" where
  "output_name fbxFilename = fst (splitext (strip fbxFilename)) @ ''.fbx''"

text \<open>
  The conversion stage \<open>Convert\<close> runs: the actor stage or the motion stage, with the
  default bone names filled in.
\<close>

definition conversion_stage ::
  "(child_object list \<Rightarrow> string \<Rightarrow> (unit, 'h) stage)
   \<Rightarrow> ('s \<Rightarrow> child_object list \<Rightarrow> string \<Rightarrow> string \<Rightarrow> real \<Rightarrow> bool \<Rightarrow> (unit, 'h) stage)
   \<Rightarrow> 's \<Rightarrow> child_object list \<Rightarrow> string option \<Rightarrow> string option \<Rightarrow> real \<Rightarrow> bool
   \<Rightarrow> (unit, 'h) stage" where
  "conversion_stage ProcessActor ProcessMotion sceneObj armatureObj hipBoneName rootBoneName
       animationSampleRate dumpCSVs =
     (let h = (case hipBoneName of None \<Rightarrow> '''' | Some x \<Rightarrow> strip x);
          r = (case rootBoneName of None \<Rightarrow> '''' | Some x \<Rightarrow> strip x);
          h' = (if h = '''' then ''Hips'' else h);
          r' = (if r = '''' then ''root'' else r)
      in if CheckArmatureContainsMesh armatureObj then ProcessActor armatureObj r'
         else ProcessMotion sceneObj armatureObj h' r' animationSampleRate dumpCSVs)"

text \<open>
  A whole conversion without the export stage: the three messages before the
  conversion stage, the stage itself, and, when the stage ends normally, the message of
  completion and the return value 1. The scene is the one the stage leaves: the export
  operator is not called.
\<close>

definition conversion_without_export ::
  "(child_object list \<Rightarrow> string \<Rightarrow> (unit, 'h) stage)
   \<Rightarrow> ('s \<Rightarrow> child_object list \<Rightarrow> string \<Rightarrow> string \<Rightarrow> real \<Rightarrow> bool \<Rightarrow> (unit, 'h) stage)
   \<Rightarrow> 's \<Rightarrow> child_object list \<Rightarrow> string option \<Rightarrow> string option \<Rightarrow> real \<Rightarrow> bool
   \<Rightarrow> (int, 'h) stage" where
  "conversion_without_export ProcessActor ProcessMotion sceneObj armatureObj hipBoneName
       rootBoneName animationSampleRate dumpCSVs w =
     (let before = [''starting Convert'',
                    ''Checked Asset Type. isActor=''
                      @ (if CheckArmatureContainsMesh armatureObj then ''True'' else ''False''),
                    ''Processed output path strings'']
      in case conversion_stage ProcessActor ProcessMotion sceneObj armatureObj hipBoneName
                rootBoneName animationSampleRate dumpCSVs w of
           ((statuses, Inl e), w') \<Rightarrow> ((before @ statuses, Inl e), w')
         | ((statuses, Inr u), w') \<Rightarrow>
             ((before @ statuses @ [''Completed Asset Conversion.''], Inr 1), w'))"

text \<open>A name that ends in \<open>.fbx\<close> once, and not twice.\<close>

definition ends_with_single_fbx :: "string \<Rightarrow> bool" where
  "ends_with_single_fbx s \<longleftrightarrow> suffix ''.fbx'' s \<and> \<not> suffix ''.fbx.fbx'' s"

section \<open>Concrete inputs\<close>

text \<open>A file system where nothing exists yet and everything can be created and written.\<close>

definition fresh_fs :: filesystem where
  "fresh_fs = \<lparr>paths = {}, mkdir_ok = (\<lambda>p. True), write_ok = (\<lambda>p. True),
               json_files = (\<lambda>p. None)\<rparr>"

text \<open>A file system where nothing exists and nothing can be created or written.\<close>

definition readonly_fs :: filesystem where
  "readonly_fs = \<lparr>paths = {}, mkdir_ok = (\<lambda>p. False), write_ok = (\<lambda>p. False),
                  json_files = (\<lambda>p. None)\<rparr>"

text \<open>The public names of Blender's \<open>mathutils\<close>, from its documentation.\<close>

definition mathutils_public :: namespace where
  "mathutils_public =
     map (\<lambda>n. (n, Other))
       [''Color'', ''Euler'', ''Matrix'', ''Quaternion'', ''Vector'',
        ''bvhtree'', ''geometry'', ''interpolate'', ''kdtree'', ''noise'']"

text \<open>A taken name gets the suffix \<open>.001\<close>.\<close>

definition suffix_001 :: "string list \<Rightarrow> string \<Rightarrow> string" where
  "suffix_001 names n = (if n \<in> set names then n @ ''.001'' else n)"

text \<open>A rig that was converted before: \<open>root\<close> is its only bone without a parent.\<close>

definition converted_rig :: armature where
  "converted_rig =
     \<lparr>bones = [\<lparr>bone_name = ''root'', parent = None, tail = (0, - 1, 0)\<rparr>,
               \<lparr>bone_name = ''Hips'', parent = Some ''root'', tail = (0, 0, 1)\<rparr>,
               \<lparr>bone_name = ''Spine'', parent = Some ''Hips'', tail = (0, 0, 1)\<rparr>],
      edit_bones = [], mode = OBJECT, scale_x = 1\<rparr>"

text \<open>Conversion stages that yield one message and end normally.\<close>

definition actor_stage :: "child_object list \<Rightarrow> string \<Rightarrow> (unit, unit) stage" where
  "actor_stage armatureObj rootBoneName w = (([''actor processed''], Inr ()), w)"

definition motion_stage ::
  "unit \<Rightarrow> child_object list \<Rightarrow> string \<Rightarrow> string \<Rightarrow> real \<Rightarrow> bool \<Rightarrow> (unit, unit) stage" where
  "motion_stage sceneObj armatureObj hipBoneName rootBoneName rate dumpCSVs w =
     (([''motion processed''], Inr ()), w)"

text \<open>Conversion stages that raise at once.\<close>

definition failing_actor_stage :: "child_object list \<Rightarrow> string \<Rightarrow> (unit, unit) stage" where
  "failing_actor_stage armatureObj rootBoneName w = (([], Inl (Exception ''actor'')), w)"

definition failing_motion_stage ::
  "unit \<Rightarrow> child_object list \<Rightarrow> string \<Rightarrow> string \<Rightarrow> real \<Rightarrow> bool \<Rightarrow> (unit, unit) stage" where
  "failing_motion_stage sceneObj armatureObj hipBoneName rootBoneName rate dumpCSVs w =
     (([], Inl (Exception ''motion'')), w)"

definition mesh_child :: child_object where
  "mesh_child = \<lparr>child_name = ''Body'', child_type = ''MESH''\<rparr>"

definition empty_child :: child_object where
  "empty_child = \<lparr>child_name = ''Target'', child_type = ''EMPTY''\<rparr>"

definition fresh_scene :: "unit blender" where
  "fresh_scene = \<lparr>fs = fresh_fs, images = [], exported = [], saved = [], host = ()\<rparr>"

definition readonly_scene :: "unit blender" where
  "readonly_scene = \<lparr>fs = readonly_fs, images = [], exported = [], saved = [], host = ()\<rparr>"

text \<open>
  A packed image with its buffer loaded, an image without data, and two scenes that
  hold them.
\<close>

definition skin_image :: image where
  "skin_image = \<lparr>image_name = ''skin'', has_data = True, packed = True,
                 filepath = ''//maps/skin.png'', filepath_raw = ''//maps/skin.png''\<rparr>"

definition viewer_image :: image where
  "viewer_image = \<lparr>image_name = ''Viewer Node'', has_data = False, packed = False,
                   filepath = '''', filepath_raw = ''''\<rparr>"

definition textured_scene :: "unit blender" where
  "textured_scene = fresh_scene\<lparr>images := [viewer_image, skin_image]\<rparr>"


text \<open>
  A rig with a bone \<open>root\<close> beside the old root \<open>Hips\<close>, both without a parent,
  listed depth-first.
\<close>

definition sibling_rig :: armature where
  "sibling_rig =
     \<lparr>bones = [\<lparr>bone_name = ''root'', parent = None, tail = (0, - 1, 0)\<rparr>,
               \<lparr>bone_name = ''Hips'', parent = None, tail = (0, 0, 1)\<rparr>,
               \<lparr>bone_name = ''Spine'', parent = Some ''Hips'', tail = (0, 0, 1)\<rparr>],
      edit_bones = [], mode = OBJECT, scale_x = 1\<rparr>"

text \<open>An image loaded from a file, with no packed file, and a scene that holds it.\<close>

definition cloth_image :: image where
  "cloth_image = \<lparr>image_name = ''cloth'', has_data = True, packed = False,
                  filepath = ''//maps/cloth.png'', filepath_raw = ''//maps/cloth.png''\<rparr>"

definition file_backed_scene :: "unit blender" where
  "file_backed_scene = fresh_scene\<lparr>images := [cloth_image]\<rparr>"

section \<open>The asset type\<close>

lemma CheckArmatureContainsMesh_loop_iff:
  "CheckArmatureContainsMesh_loop cs \<longleftrightarrow> (\<exists>c\<in>set cs. child_type c = ''MESH'')"
  by (induction cs) auto

lemma Convert_first_messages:
  "take 3 (fst (fst (Convert ProcessActor ProcessMotion sceneObj armatureObj hipBoneName
      rootBoneName rate fbxFilename fbxOutputPath app dumpCSVs w)))
   = [''starting Convert'',
      ''Checked Asset Type. isActor=''
        @ (if CheckArmatureContainsMesh armatureObj then ''True'' else ''False''),
      ''Processed output path strings'']"
proof -
  obtain o1 f1 where g: "GetOutputFilename (fs w) (CheckArmatureContainsMesh armatureObj)
      fbxFilename fbxOutputPath app = (o1, f1)"
    by (metis prod.exhaust)
  obtain ys r w2 where st:
    "conversion_stage ProcessActor ProcessMotion sceneObj armatureObj hipBoneName rootBoneName
       rate dumpCSVs (w\<lparr>fs := f1\<rparr>) = ((ys, r), w2)"
    by (metis prod.exhaust)
  show ?thesis
  proof (cases "CheckArmatureContainsMesh armatureObj")
    case True
    with g have g': "GetOutputFilename (fs w) True fbxFilename fbxOutputPath app = (o1, f1)"
      by simp
    from st True show ?thesis
      by (cases r; cases o1)
         (simp_all add: Convert_def conversion_stage_def g' Let_def split: sum.splits)
  next
    case False
    with g have g': "GetOutputFilename (fs w) False fbxFilename fbxOutputPath app = (o1, f1)"
      by simp
    from st False show ?thesis
      by (cases r; cases o1)
         (simp_all add: Convert_def conversion_stage_def g' Let_def split: sum.splits)
  qed
qed

text \<open>
  Claim C3. \<open>_CheckArmatureContainsMesh\<close> answers true exactly when one of the direct
  children has type \<open>MESH\<close>. \<open>Convert\<close> takes the answer as the asset type: its
  second message reports it, with a mesh child it runs the actor stage and the motion
  stage plays no part in it, with none it runs the motion stage and the actor stage
  plays no part. The query reads the children and nothing else: it takes no scene and
  returns none.
\<close>

theorem asset_type_by_mesh_children:
  "(CheckArmatureContainsMesh children \<longleftrightarrow> (\<exists>c\<in>set children. child_type c = ''MESH''))
   \<and> fst (fst (Convert ProcessActor ProcessMotion sceneObj children hipBoneName rootBoneName rate
          fbxFilename fbxOutputPath app dumpCSVs w)) ! 1
       = ''Checked Asset Type. isActor=''
           @ (if (\<exists>c\<in>set children. child_type c = ''MESH'') then ''True'' else ''False'')
   \<and> ((\<exists>c\<in>set children. child_type c = ''MESH'') \<longrightarrow>
        Convert ProcessActor ProcessMotion sceneObj children hipBoneName rootBoneName rate
          fbxFilename fbxOutputPath app dumpCSVs w
        = Convert ProcessActor ProcessMotion' sceneObj children hipBoneName rootBoneName rate
            fbxFilename fbxOutputPath app dumpCSVs w)
   \<and> ((\<forall>c\<in>set children. child_type c \<noteq> ''MESH'') \<longrightarrow>
        Convert ProcessActor ProcessMotion sceneObj children hipBoneName rootBoneName rate
          fbxFilename fbxOutputPath app dumpCSVs w
        = Convert ProcessActor' ProcessMotion sceneObj children hipBoneName rootBoneName rate
            fbxFilename fbxOutputPath app dumpCSVs w)"
proof -
  let ?ys = "fst (fst (Convert ProcessActor ProcessMotion sceneObj children hipBoneName
      rootBoneName rate fbxFilename fbxOutputPath app dumpCSVs w))"
  have iff: "CheckArmatureContainsMesh children \<longleftrightarrow> (\<exists>c\<in>set children. child_type c = ''MESH'')"
    by (simp add: CheckArmatureContainsMesh_def CheckArmatureContainsMesh_loop_iff)
  have "?ys ! 1 = take 3 ?ys ! 1" by simp
  also have "\<dots> = ''Checked Asset Type. isActor=''
           @ (if CheckArmatureContainsMesh children then ''True'' else ''False'')"
    by (simp only: Convert_first_messages) simp
  finally have second: "?ys ! 1 = ''Checked Asset Type. isActor=''
           @ (if (\<exists>c\<in>set children. child_type c = ''MESH'') then ''True'' else ''False'')"
    by (simp only: iff)
  have rest: "((\<exists>c\<in>set children. child_type c = ''MESH'') \<longrightarrow>
        Convert ProcessActor ProcessMotion sceneObj children hipBoneName rootBoneName rate
          fbxFilename fbxOutputPath app dumpCSVs w
        = Convert ProcessActor ProcessMotion' sceneObj children hipBoneName rootBoneName rate
            fbxFilename fbxOutputPath app dumpCSVs w)
   \<and> ((\<forall>c\<in>set children. child_type c \<noteq> ''MESH'') \<longrightarrow>
        Convert ProcessActor ProcessMotion sceneObj children hipBoneName rootBoneName rate
          fbxFilename fbxOutputPath app dumpCSVs w
        = Convert ProcessActor' ProcessMotion sceneObj children hipBoneName rootBoneName rate
            fbxFilename fbxOutputPath app dumpCSVs w)"
    by (simp add: CheckArmatureContainsMesh_def CheckArmatureContainsMesh_loop_iff Convert_def)
  from iff second rest show ?thesis by blast
qed

theorem asset_type_by_mesh_children_witness:
  "CheckArmatureContainsMesh [empty_child, mesh_child]
   \<and> \<not> CheckArmatureContainsMesh [empty_child]
   \<and> Convert actor_stage motion_stage () [empty_child, mesh_child] None None 60 None None True False
        fresh_scene
      = Convert actor_stage failing_motion_stage () [empty_child, mesh_child] None None 60 None None
          True False fresh_scene
   \<and> Convert actor_stage motion_stage () [empty_child] None None 60 None None True False
        fresh_scene
      = Convert failing_actor_stage motion_stage () [empty_child] None None 60 None None
          True False fresh_scene"
proof -
  have mesh: "\<exists>c\<in>set [empty_child, mesh_child]. child_type c = ''MESH''"
    by (simp add: mesh_child_def)
  have none: "\<forall>c\<in>set [empty_child]. child_type c \<noteq> ''MESH''"
    by (simp add: empty_child_def)
  note a = asset_type_by_mesh_children
    [where children = "[empty_child, mesh_child]" and ProcessActor = actor_stage
       and ProcessMotion = motion_stage and ProcessMotion' = failing_motion_stage
       and sceneObj = "()" and hipBoneName = None and rootBoneName = None and rate = 60
       and fbxFilename = None and fbxOutputPath = None and app = True and dumpCSVs = False
       and w = fresh_scene]
  note b = asset_type_by_mesh_children
    [where children = "[empty_child]" and ProcessActor = actor_stage
       and ProcessActor' = failing_actor_stage and ProcessMotion = motion_stage
       and sceneObj = "()" and hipBoneName = None and rootBoneName = None and rate = 60
       and fbxFilename = None and fbxOutputPath = None and app = True and dumpCSVs = False
       and w = fresh_scene]
  from a mesh b none show ?thesis by blast
qed

section \<open>The unbound name in AddSiblingRootBone\<close>

lemma load_global_cmn:
  assumes "''cmn'' \<notin> fst ` set mathutils_names"
  shows "load_global (commonmixalot_globals mathutils_names) ''cmn'' = Inl (NameError ''cmn'')"
proof -
  have "map_of mathutils_names ''cmn'' = None"
    using assms by (simp add: map_of_eq_None_iff)
  then show ?thesis
    by (simp add: load_global_def commonmixalot_globals_def map_add_def)
qed

lemma mathutils_public_no_cmn: "''cmn'' \<notin> fst ` set mathutils_public"
  by (simp add: mathutils_public_def)

text \<open>
  Claim C8. The module \<open>commonmixalot\<close> binds no name \<open>cmn\<close>, and \<open>mathutils\<close> exports
  none. So every call of \<open>AddSiblingRootBone\<close> ends with \<open>NameError\<close> at its first
  statement and leaves the armature as it was: no bone is created, and neither the
  already-processed exception nor the early return is reached.
\<close>

theorem AddSiblingRootBone_NameError:
  assumes "''cmn'' \<notin> fst ` set mathutils_names"
  shows "AddSiblingRootBone mathutils_names unique_name obj boneName
           = (Inl (NameError ''cmn''), obj)"
  using load_global_cmn [OF assms] by (simp add: AddSiblingRootBone_def)

theorem AddSiblingRootBone_NameError_witness:
  "''cmn'' \<notin> fst ` set mathutils_public
   \<and> AddSiblingRootBone mathutils_public suffix_001
        (converted_rig\<lparr>bones := [\<lparr>bone_name = ''Hips'', parent = None, tail = (0, 0, 1)\<rparr>]\<rparr>)
        ''root''
      = (Inl (NameError ''cmn''),
         converted_rig\<lparr>bones := [\<lparr>bone_name = ''Hips'', parent = None, tail = (0, 0, 1)\<rparr>]\<rparr>)"
  using AddSiblingRootBone_NameError [OF mathutils_public_no_cmn] mathutils_public_no_cmn
  by blast

lemma load_global_bound:
  "load_global (commonmixalot_globals ((''cmn'', CommonMixalot) # mathutils_names)) ''cmn''
     = Inr CommonMixalot"
  by (simp add: load_global_def commonmixalot_globals_def map_add_def)

text \<open>
  Claim C1. On a rig whose only bone without a parent is already named \<open>root\<close>, the
  two tests of the guard hold, yet the call does not end with the already-processed
  exception: it ends with \<open>NameError\<close>, before the guard is evaluated. The armature is
  unchanged. Were \<open>cmn\<close> a name of the module itself, the same call would end with the
  already-processed exception and leave the armature unchanged, as the guard is written
  to do.
\<close>

theorem AddSiblingRootBone_converted_rig:
  "HasOnlyOneRootBone converted_rig
   \<and> HasRootMotionBone converted_rig ''root''
   \<and> AddSiblingRootBone mathutils_public suffix_001 converted_rig ''root''
       = (Inl (NameError ''cmn''), converted_rig)
   \<and> AddSiblingRootBone ((''cmn'', CommonMixalot) # mathutils_public) suffix_001 converted_rig
         ''root''
       = (Inl (Exception ''Most likely this asset was already processed because it contains a single 'root' bone''),
          converted_rig)"
  using load_global_cmn [OF mathutils_public_no_cmn] load_global_bound [of mathutils_public]
  by (simp add: AddSiblingRootBone_def HasOnlyOneRootBone_def HasRootMotionBone_def
      converted_rig_def)

section \<open>Reparenting\<close>

lemma find_from_absent: "key \<notin> bone_name ` set bs \<Longrightarrow> find_from bs key i = - 1"
  by (induction bs arbitrary: i) auto

lemma find_from_present:
  "key \<in> bone_name ` set bs \<Longrightarrow>
     i \<le> find_from bs key i \<and> find_from bs key i < i + int (length bs)
     \<and> bone_name (bs ! nat (find_from bs key i - i)) = key"
proof (induction bs arbitrary: i)
  case Nil
  then show ?case by simp
next
  case (Cons b bs)
  show ?case
  proof (cases "bone_name b = key")
    case True
    then show ?thesis by simp
  next
    case False
    with Cons.prems have "key \<in> bone_name ` set bs" by auto
    from Cons.IH [OF this, of "i + 1"]
    have ih: "i + 1 \<le> find_from bs key (i + 1)"
      "find_from bs key (i + 1) < i + 1 + int (length bs)"
      "bone_name (bs ! nat (find_from bs key (i + 1) - (i + 1))) = key"
      by auto
    from ih(1) have "nat (find_from bs key (i + 1) - i)
                       = Suc (nat (find_from bs key (i + 1) - (i + 1)))"
      by linarith
    with ih False show ?thesis by simp
  qed
qed

lemma ebones_find_range: "- 1 \<le> ebones_find bs key \<and> ebones_find bs key < int (length bs)"
proof (cases "key \<in> bone_name ` set bs")
  case True
  from find_from_present [OF this, of 0] show ?thesis by (simp add: ebones_find_def)
next
  case False
  then show ?thesis by (simp add: ebones_find_def find_from_absent)
qed

lemma subscript_find:
  "subscript bs (ebones_find bs key) =
     (if bs = [] then Inl IndexError
      else Inr (if ebones_find bs key < 0 then length bs - 1 else nat (ebones_find bs key)))"
proof (cases "bs = []")
  case True
  then show ?thesis by (simp add: subscript_def ebones_find_def)
next
  case False
  then have n: "0 < int (length bs)" by simp
  from ebones_find_range [of bs key]
  have r: "- 1 \<le> ebones_find bs key" "ebones_find bs key < int (length bs)" by auto
  show ?thesis
  proof (cases "ebones_find bs key < 0")
    case True
    with r have i: "ebones_find bs key = - 1" by simp
    have "nat (- 1 + int (length bs)) = length bs - 1" by linarith
    with False n i show ?thesis by (simp add: subscript_def Let_def)
  next
    case F: False
    with False r show ?thesis by (simp add: subscript_def Let_def)
  qed
qed


lemma MakeParentBone_outcome:
  assumes "mode obj = OBJECT"
  shows "fst (MakeParentBone obj parentBoneName childBoneName)
           = (if bones obj = [] then Inl IndexError else Inr ())"
proof -
  have e: "edit_bones (mode_set EDIT obj) = bones obj"
    using assms by (simp add: mode_set_def)
  show ?thesis
    by (simp add: MakeParentBone_def Let_def e subscript_find)
qed

text \<open>
  Claim C2. \<open>MakeParentBone\<close> looks both names up with \<open>find\<close> and uses the results
  as indices without testing them. On the rig below no bone is named \<open>Hip\<close>:
  \<open>find\<close> gives \<open>-1\<close>, which as an index is the last bone, so the call raises
  nothing and the bone \<open>Spine\<close> leaves its parent \<open>Hips\<close> for \<open>root\<close>; the bones
  are then listed as \<open>root\<close>, \<open>Spine\<close>, \<open>Hips\<close>. With the name \<open>Hips\<close>, which
  is present, the same call on the same rig puts \<open>Hips\<close> below \<open>root\<close> and leaves
  \<open>Spine\<close> below \<open>Hips\<close>.
\<close>

theorem MakeParentBone_absent_child:
  "''Hip'' \<notin> bone_name ` set (bones sibling_rig)
   \<and> map (\<lambda>b. (bone_name b, parent b)) (bones sibling_rig)
       = [(''root'', None), (''Hips'', None), (''Spine'', Some ''Hips'')]
   \<and> fst (MakeParentBone sibling_rig ''root'' ''Hip'') = Inr ()
   \<and> map (\<lambda>b. (bone_name b, parent b)) (bones (snd (MakeParentBone sibling_rig ''root'' ''Hip'')))
       = [(''root'', None), (''Spine'', Some ''root''), (''Hips'', None)]
   \<and> fst (MakeParentBone sibling_rig ''root'' ''Hips'') = Inr ()
   \<and> map (\<lambda>b. (bone_name b, parent b)) (bones (snd (MakeParentBone sibling_rig ''root'' ''Hips'')))
       = [(''root'', None), (''Hips'', Some ''root''), (''Spine'', Some ''Hips'')]"
  by code_simp

section \<open>Conversions that export nothing\<close>

lemma strip_blank_iff: "strip f = '''' \<longleftrightarrow> (\<forall>c\<in>set f. py_isspace c)"
proof
  assume "strip f = ''''"
  then have all: "\<forall>x\<in>set (dropWhile py_isspace f). py_isspace x"
    by (simp add: strip_def)
  have "dropWhile py_isspace f = []"
  proof (rule ccontr)
    assume ne: "dropWhile py_isspace f \<noteq> []"
    then have "\<not> py_isspace (hd (dropWhile py_isspace f))" by (rule hd_dropWhile)
    moreover from ne have "hd (dropWhile py_isspace f) \<in> set (dropWhile py_isspace f)" by simp
    ultimately show False using all by blast
  qed
  then show "\<forall>c\<in>set f. py_isspace c" by simp
next
  assume "\<forall>c\<in>set f. py_isspace c"
  then have "dropWhile py_isspace f = []" by simp
  then have "strip f = rev (dropWhile py_isspace (rev []))" by (simp only: strip_def)
  then show "strip f = ''''" by simp
qed

lemma GetOutputFilename_blank:
  assumes "fbxFilename = None \<or> (\<exists>f. fbxFilename = Some f \<and> strip f = '''')"
  shows "GetOutputFilename fsys isActor fbxFilename fbxOutputPath app = (None, fsys)"
  using assms by (auto simp: GetOutputFilename_def)

text \<open>What \<open>_GetOutputFilename\<close> returns for a file name that is not blank.\<close>

lemma GetOutputFilename_named:
  assumes "strip f \<noteq> ''''"
  shows "GetOutputFilename fsys isActor (Some f) fbxOutputPath app =
    (let D = output_directory isActor fbxOutputPath app
     in if path_exists fsys D then (Some (join D (output_name f)), fsys)
        else if mkdir_ok fsys D
             then (Some (join D (output_name f)), fsys\<lparr>paths := insert D (paths fsys)\<rparr>)
        else (None, fsys))"
  using assms
  by (simp add: GetOutputFilename_def output_directory_def output_name_def makedirs_def Let_def)

lemma Convert_no_output:
  assumes "GetOutputFilename (fs w) (CheckArmatureContainsMesh armatureObj) fbxFilename
             fbxOutputPath app = (None, fs w)"
  shows "Convert ProcessActor ProcessMotion sceneObj armatureObj hipBoneName rootBoneName rate
           fbxFilename fbxOutputPath app dumpCSVs w
         = conversion_without_export ProcessActor ProcessMotion sceneObj armatureObj hipBoneName
             rootBoneName rate dumpCSVs w"
proof -
  obtain ys r w2 where st:
    "conversion_stage ProcessActor ProcessMotion sceneObj armatureObj hipBoneName rootBoneName
       rate dumpCSVs w = ((ys, r), w2)"
    by (metis prod.exhaust)
  show ?thesis
  proof (cases "CheckArmatureContainsMesh armatureObj")
    case True
    with assms have g: "GetOutputFilename (fs w) True fbxFilename fbxOutputPath app = (None, fs w)"
      by simp
    from st True show ?thesis
      by (cases r) (simp_all add: Convert_def conversion_without_export_def conversion_stage_def
          g Let_def)
  next
    case False
    with assms have g: "GetOutputFilename (fs w) False fbxFilename fbxOutputPath app = (None, fs w)"
      by simp
    from st False show ?thesis
      by (cases r) (simp_all add: Convert_def conversion_without_export_def conversion_stage_def
          g Let_def)
  qed
qed

lemma strip_anim: "strip ''anim'' = ''anim''"
  by code_simp

lemma strip_out: "strip ''out'' = ''out''"
  by code_simp

text \<open>The two runs the witnesses below compare with.\<close>

lemma motion_run_without_export:
  "conversion_without_export actor_stage motion_stage () [empty_child] None None 60 False w
   = (([''starting Convert'', ''Checked Asset Type. isActor=False'',
        ''Processed output path strings'', ''motion processed'',
        ''Completed Asset Conversion.''], Inr 1), w)"
  by (simp add: conversion_without_export_def conversion_stage_def motion_stage_def
      CheckArmatureContainsMesh_def empty_child_def)

lemma actor_run_without_export:
  "conversion_without_export actor_stage motion_stage () [mesh_child] None None 60 False w
   = (([''starting Convert'', ''Checked Asset Type. isActor=True'',
        ''Processed output path strings'', ''actor processed'',
        ''Completed Asset Conversion.''], Inr 1), w)"
  by (simp add: conversion_without_export_def conversion_stage_def actor_stage_def
      CheckArmatureContainsMesh_def mesh_child_def)

text \<open>
  Claim C9. When the file name is \<open>None\<close>, empty or made of whitespace only,
  \<open>_GetOutputFilename\<close> returns \<open>None\<close> whatever the other arguments are and leaves
  the file system as it was, so no directory is created; \<open>Convert\<close> is then a whole
  conversion without the export stage.
\<close>

theorem blank_filename_no_export:
  assumes "fbxFilename = None \<or> (\<exists>f. fbxFilename = Some f \<and> (\<forall>c\<in>set f. py_isspace c))"
  shows "GetOutputFilename fsys isActor fbxFilename fbxOutputPath app = (None, fsys)
       \<and> Convert ProcessActor ProcessMotion sceneObj armatureObj hipBoneName rootBoneName rate
           fbxFilename fbxOutputPath app dumpCSVs w
         = conversion_without_export ProcessActor ProcessMotion sceneObj armatureObj hipBoneName
             rootBoneName rate dumpCSVs w"
proof -
  from assms have blank: "fbxFilename = None \<or> (\<exists>f. fbxFilename = Some f \<and> strip f = '''')"
    by (auto simp: strip_blank_iff)
  show ?thesis
    using GetOutputFilename_blank [OF blank] by (simp add: Convert_no_output)
qed

theorem blank_filename_no_export_witness:
  "GetOutputFilename fresh_fs False (Some ''  '') (Some ''out'') True = (None, fresh_fs)
   \<and> Convert actor_stage motion_stage () [empty_child] None None 60 (Some ''  '') (Some ''out'')
        True False fresh_scene
      = (([''starting Convert'', ''Checked Asset Type. isActor=False'',
           ''Processed output path strings'', ''motion processed'',
           ''Completed Asset Conversion.''], Inr 1), fresh_scene)
   \<and> Convert actor_stage motion_stage () [mesh_child] None None 60 None (Some ''out'')
        True False fresh_scene
      = (([''starting Convert'', ''Checked Asset Type. isActor=True'',
           ''Processed output path strings'', ''actor processed'',
           ''Completed Asset Conversion.''], Inr 1), fresh_scene)"
proof -
  have sp: "\<forall>c\<in>set ''  ''. py_isspace c"
    by (simp add: py_isspace_def)
  have h1: "Some ''  '' = None \<or> (\<exists>f. Some ''  '' = Some f \<and> (\<forall>c\<in>set f. py_isspace c))"
    using sp by blast
  have h2: "(None :: string option) = None \<or> (\<exists>f. None = Some f \<and> (\<forall>c\<in>set f. py_isspace c))"
    by simp
  note a = blank_filename_no_export [OF h1, where fsys = fresh_fs and isActor = False
      and fbxOutputPath = "Some ''out''" and app = True and ProcessActor = actor_stage
      and ProcessMotion = motion_stage and sceneObj = "()" and armatureObj = "[empty_child]"
      and hipBoneName = None and rootBoneName = None and rate = 60 and dumpCSVs = False
      and w = fresh_scene]
  note b = blank_filename_no_export [OF h2, where fsys = fresh_fs and isActor = True
      and fbxOutputPath = "Some ''out''" and app = True and ProcessActor = actor_stage
      and ProcessMotion = motion_stage and sceneObj = "()" and armatureObj = "[mesh_child]"
      and hipBoneName = None and rootBoneName = None and rate = 60 and dumpCSVs = False
      and w = fresh_scene]
  from a b show ?thesis
    by (simp add: motion_run_without_export actor_run_without_export)
qed

text \<open>
  Claim C5. When the file name is not blank and the output directory neither exists
  nor can be created, \<open>_GetOutputFilename\<close> returns \<open>None\<close> and raises nothing, and
  \<open>Convert\<close> is a whole conversion without the export stage: it ends as the conversion
  stage ends.
\<close>

theorem directory_failure_not_fatal:
  assumes "strip f \<noteq> ''''"
    and "\<not> path_exists fsys (output_directory isActor fbxOutputPath app)"
    and "\<not> mkdir_ok fsys (output_directory isActor fbxOutputPath app)"
  shows "GetOutputFilename fsys isActor (Some f) fbxOutputPath app = (None, fsys)
       \<and> (isActor = CheckArmatureContainsMesh armatureObj \<and> fs w = fsys \<longrightarrow>
            Convert ProcessActor ProcessMotion sceneObj armatureObj hipBoneName rootBoneName rate
              (Some f) fbxOutputPath app dumpCSVs w
            = conversion_without_export ProcessActor ProcessMotion sceneObj armatureObj
                hipBoneName rootBoneName rate dumpCSVs w)"
proof -
  have g: "GetOutputFilename fsys isActor (Some f) fbxOutputPath app = (None, fsys)"
    using assms by (simp add: GetOutputFilename_named)
  have "Convert ProcessActor ProcessMotion sceneObj armatureObj hipBoneName rootBoneName rate
          (Some f) fbxOutputPath app dumpCSVs w
        = conversion_without_export ProcessActor ProcessMotion sceneObj armatureObj
            hipBoneName rootBoneName rate dumpCSVs w"
    if "isActor = CheckArmatureContainsMesh armatureObj" and "fs w = fsys"
    using g that by (intro Convert_no_output) simp
  with g show ?thesis by blast
qed

theorem directory_failure_not_fatal_witness:
  "strip ''anim'' \<noteq> ''''
   \<and> \<not> path_exists readonly_fs (output_directory True (Some ''out'') True)
   \<and> \<not> mkdir_ok readonly_fs (output_directory True (Some ''out'') True)
   \<and> GetOutputFilename readonly_fs True (Some ''anim'') (Some ''out'') True = (None, readonly_fs)
   \<and> Convert actor_stage motion_stage () [mesh_child] None None 60 (Some ''anim'') (Some ''out'')
        True False readonly_scene
      = (([''starting Convert'', ''Checked Asset Type. isActor=True'',
           ''Processed output path strings'', ''actor processed'',
           ''Completed Asset Conversion.''], Inr 1), readonly_scene)"
proof -
  have h1: "strip ''anim'' \<noteq> ''''"
    by (simp add: strip_anim)
  have h2: "\<not> path_exists readonly_fs (output_directory True (Some ''out'') True)"
    by (simp add: path_exists_def readonly_fs_def)
  have h3: "\<not> mkdir_ok readonly_fs (output_directory True (Some ''out'') True)"
    by (simp add: readonly_fs_def)
  have h4: "True = CheckArmatureContainsMesh [mesh_child] \<and> fs readonly_scene = readonly_fs"
    by (simp add: CheckArmatureContainsMesh_def mesh_child_def readonly_scene_def)
  note a = directory_failure_not_fatal [OF h1 h2 h3, where armatureObj = "[mesh_child]"
      and w = readonly_scene and ProcessActor = actor_stage and ProcessMotion = motion_stage
      and sceneObj = "()" and hipBoneName = None and rootBoneName = None and rate = 60
      and dumpCSVs = False]
  from a h1 h2 h3 h4 show ?thesis
    by (simp add: actor_run_without_export)
qed

section \<open>The output path\<close>

lemma rfind_from_absent: "c \<notin> set s \<Longrightarrow> rfind_from c s i r = r"
  by (induction s arbitrary: i r) auto

lemma rfind_from_last:
  "c \<notin> set b \<Longrightarrow> rfind_from c (a @ c # b) i r = i + int (length a)"
  by (induction a arbitrary: i r) (auto simp: rfind_from_absent)

lemma rfind_absent: "c \<notin> set s \<Longrightarrow> rfind s c = - 1"
  by (simp add: rfind_def rfind_from_absent)

lemma rfind_last: "c \<notin> set b \<Longrightarrow> rfind (a @ c # b) c = int (length a)"
  by (simp add: rfind_def rfind_from_last)

lemma basename_plain: "CHR ''/'' \<notin> set b \<Longrightarrow> basename b = b"
  by (simp add: basename_def rfind_absent)

lemma basename_after_sep:
  assumes "CHR ''/'' \<notin> set b"
  shows "basename (a @ CHR ''/'' # b) = b"
proof -
  have "nat (int (length a) + 1) = Suc (length a)" by simp
  then show ?thesis using assms by (simp add: basename_def rfind_last)
qed

lemma split_sep_not_Nil: "split_sep s \<noteq> []"
  by (induction s) (auto split: list.splits)

lemma split_sep_plain: "CHR ''/'' \<notin> set b \<Longrightarrow> split_sep b = [b]"
  by (induction b) auto

lemma split_sep_sep: "split_sep (a @ CHR ''/'' # b) = split_sep a @ split_sep b"
  by (induction a) (auto split: list.splits simp: split_sep_not_Nil)

lemma join_sep_snoc:
  "join_sep (cs @ [w]) = (if cs = [] then w else join_sep cs @ CHR ''/'' # w)"
  by (induction cs rule: join_sep.induct) auto

lemma normpath_step_keeps:
  "w \<noteq> '''' \<Longrightarrow> w \<noteq> ''.'' \<Longrightarrow> w \<noteq> ''..'' \<Longrightarrow> normpath_step k cs w = cs @ [w]"
  by (simp add: normpath_step_def)

lemma basename_normpath_last:
  assumes sp: "split_sep p = xs @ [w]"
    and w: "w \<noteq> ''''" "w \<noteq> ''.''" "w \<noteq> ''..''" "CHR ''/'' \<notin> set w"
  shows "basename (normpath p) = w"
proof -
  have pne: "p \<noteq> ''''"
    using sp w(1) by (cases p) auto
  define k :: nat where "k = (if take 1 p = ''/''
               then (if take 2 p = ''//'' \<and> take 3 p \<noteq> ''///'' then 2 else 1)
               else 0)"
  define cs where "cs = foldl (normpath_step k) [] xs"
  have comps: "foldl (normpath_step k) [] (split_sep p) = cs @ [w]"
    by (simp add: sp cs_def normpath_step_keeps w)
  define joined where "joined = replicate k CHR ''/'' @ join_sep (cs @ [w])"
  have np: "normpath p = (if joined = '''' then ''.'' else joined)"
    using pne comps by (simp add: normpath_def k_def joined_def Let_def)
  have "\<exists>a. joined = a @ CHR ''/'' # w \<or> joined = w"
  proof (cases "cs = []")
    case True
    show ?thesis
    proof (cases k)
      case 0
      with True show ?thesis by (simp add: joined_def)
    next
      case (Suc j)
      then have "replicate k CHR ''/'' = replicate j CHR ''/'' @ [CHR ''/'']"
        by (simp add: replicate_append_same)
      with True show ?thesis by (simp add: joined_def)
    qed
  next
    case False
    then have "joined = (replicate k CHR ''/'' @ join_sep cs) @ CHR ''/'' # w"
      by (simp add: joined_def join_sep_snoc)
    then show ?thesis by blast
  qed
  then obtain a where j: "joined = a @ CHR ''/'' # w \<or> joined = w" by blast
  then have jne: "joined \<noteq> ''''" using w(1) by auto
  from j have "basename joined = w"
    using w(4) by (auto simp: basename_after_sep basename_plain)
  with np jne show ?thesis by simp
qed

lemma split_sep_join:
  assumes "CHR ''/'' \<notin> set w" "w \<noteq> ''''"
  shows "\<exists>xs. split_sep (join d w) = xs @ [w]"
proof -
  from assms have hd: "take 1 w \<noteq> ''/''" by (cases w) auto
  show ?thesis
  proof (cases "d = ''''")
    case True
    with hd assms show ?thesis by (simp add: join_def split_sep_plain)
  next
    case False
    show ?thesis
    proof (cases "last d = CHR ''/''")
      case True
      with False have "d = butlast d @ [CHR ''/'']" by (metis append_butlast_last_id)
      then have "join d w = butlast d @ CHR ''/'' # w"
        using hd False True by (simp add: join_def)
      then show ?thesis using assms by (simp add: split_sep_sep split_sep_plain)
    next
      case F2: False
      then have "join d w = d @ CHR ''/'' # w"
        using hd False by (simp add: join_def)
      then show ?thesis using assms by (simp add: split_sep_sep split_sep_plain)
    qed
  qed
qed

lemma basename_normpath_join:
  assumes "CHR ''/'' \<notin> set w" "w \<noteq> ''''" "w \<noteq> ''.''" "w \<noteq> ''..''"
  shows "basename (normpath (join d w)) = w"
proof -
  from split_sep_join [OF assms(1,2)] obtain xs where "split_sep (join d w) = xs @ [w]" by blast
  then show ?thesis using assms by (intro basename_normpath_last) auto
qed

lemma output_directory_last_segment:
  "basename (normpath (output_directory isActor fbxOutputPath True))
     = (if isActor then ''Actor'' else ''Motions'')"
  by (simp add: output_directory_def Let_def basename_normpath_join)

text \<open>
  Claim C4. With \<open>appendActorOrMotionPath\<close> set and a directory that exists or can be
  created, the path returned is the file name joined to the directory \<open>D\<close>: the
  output directory itself when its last segment is already \<open>Actor\<close> for an actor, or
  \<open>Motions\<close> for a motion, and the output directory with that segment joined to it
  otherwise. Either way the last segment of \<open>D\<close> is that segment. The witness gives
  the paths for the file name \<open>anim\<close> and the directories \<open>out\<close> and
  \<open>out/Motions\<close>.
\<close>

theorem GetOutputFilename_appends_segment:
  assumes "strip f \<noteq> ''''"
    and "seg = (if isActor then ''Actor'' else ''Motions'')"
    and "d = (case fbxOutputPath of None \<Rightarrow> ''.''
              | Some p \<Rightarrow> if strip p = '''' then ''.'' else strip p)"
    and "D = (if basename (normpath d) = seg then d else join d seg)"
    and "path_exists fsys D \<or> mkdir_ok fsys D"
  shows "fst (GetOutputFilename fsys isActor (Some f) fbxOutputPath True)
           = Some (join D (fst (splitext (strip f)) @ ''.fbx''))
         \<and> basename (normpath D) = seg"
proof -
  have D: "D = output_directory isActor fbxOutputPath True"
    using assms(2-4) by (simp add: output_directory_def Let_def split: option.splits)
  have "basename (normpath D) = seg"
    using assms(2) by (simp add: D output_directory_last_segment)
  moreover have "fst (GetOutputFilename fsys isActor (Some f) fbxOutputPath True)
           = Some (join D (fst (splitext (strip f)) @ ''.fbx''))"
    using assms(1,5) by (auto simp: GetOutputFilename_named D [symmetric] output_name_def)
  ultimately show ?thesis by simp
qed

lemma out_Motions: "(if basename (normpath ''out'') = ''Motions'' then ''out'' else join ''out'' ''Motions'') = ''out/Motions''"
  by code_simp

lemma out_Actor: "(if basename (normpath ''out'') = ''Actor'' then ''out'' else join ''out'' ''Actor'') = ''out/Actor''"
  by code_simp

lemma out_Motions_again:
  "(if basename (normpath ''out/Motions'') = ''Motions'' then ''out/Motions''
    else join ''out/Motions'' ''Motions'') = ''out/Motions''"
  by code_simp

lemma anim_fbx_Motions: "join ''out/Motions'' (fst (splitext (strip ''anim'')) @ ''.fbx'') = ''out/Motions/anim.fbx''"
  by code_simp

lemma anim_fbx_Actor: "join ''out/Actor'' (fst (splitext (strip ''anim'')) @ ''.fbx'') = ''out/Actor/anim.fbx''"
  by code_simp

lemma strip_out_Motions: "strip ''out/Motions'' = ''out/Motions''"
  by code_simp

theorem GetOutputFilename_appends_segment_witness:
  "strip ''anim'' \<noteq> ''''
   \<and> (path_exists fresh_fs ''out/Motions'' \<or> mkdir_ok fresh_fs ''out/Motions'')
   \<and> fst (GetOutputFilename fresh_fs False (Some ''anim'') (Some ''out'') True)
       = Some ''out/Motions/anim.fbx''
   \<and> fst (GetOutputFilename fresh_fs True (Some ''anim'') (Some ''out'') True)
       = Some ''out/Actor/anim.fbx''
   \<and> fst (GetOutputFilename fresh_fs False (Some ''anim'') (Some ''out/Motions'') True)
       = Some ''out/Motions/anim.fbx''"
proof -
  have ne: "strip ''anim'' \<noteq> ''''" by (simp add: strip_anim)
  have ok: "path_exists fresh_fs D \<or> mkdir_ok fresh_fs D" for D
    by (simp add: fresh_fs_def)
  have d: "''out'' = (case Some ''out'' of None \<Rightarrow> ''.''
                     | Some p \<Rightarrow> if strip p = '''' then ''.'' else strip p)"
    by (simp add: strip_out)
  have d2: "''out/Motions'' = (case Some ''out/Motions'' of None \<Rightarrow> ''.''
                     | Some p \<Rightarrow> if strip p = '''' then ''.'' else strip p)"
    by (simp add: strip_out_Motions)
  have m: "''Motions'' = (if False then ''Actor'' else ''Motions'')" by simp
  have a: "''Actor'' = (if True then ''Actor'' else ''Motions'')" by simp
  note t1 = GetOutputFilename_appends_segment [OF ne m d out_Motions [symmetric] ok]
  note t2 = GetOutputFilename_appends_segment [OF ne a d out_Actor [symmetric] ok]
  note t3 = GetOutputFilename_appends_segment [OF ne m d2 out_Motions_again [symmetric] ok]
  from t1 t2 t3 ne ok show ?thesis
    by (simp add: anim_fbx_Motions anim_fbx_Actor)
qed

section \<open>The file name\<close>

lemma rfind_ge: "- 1 \<le> rfind s c"
proof (cases "c \<in> set s")
  case True
  then obtain a b where "s = a @ c # b" "c \<notin> set b" by (meson split_list_last)
  then show ?thesis by (simp add: rfind_last)
next
  case False
  then show ?thesis by (simp add: rfind_absent)
qed

lemma splitext_parts:
  assumes "splitext p = (rt, ext)"
  shows "p = rt @ ext"
    and "ext = '''' \<or> (\<exists>b. ext = CHR ''.'' # b \<and> CHR ''.'' \<notin> set b \<and> CHR ''/'' \<notin> set b)"
proof -
  show "p = rt @ ext"
    using assms by (auto simp: splitext_def Let_def split: if_splits)
  show "ext = '''' \<or> (\<exists>b. ext = CHR ''.'' # b \<and> CHR ''.'' \<notin> set b \<and> CHR ''/'' \<notin> set b)"
  proof (cases "rfind p CHR ''.'' > rfind p CHR ''/''
                  \<and> skip_leading_dots p (nat (rfind p CHR ''/'' + 1)) (nat (rfind p CHR ''.''))")
    case False
    with assms show ?thesis by (auto simp: splitext_def Let_def)
  next
    case True
    then have gt: "rfind p CHR ''.'' > rfind p CHR ''/''" by simp
    from True assms have ext: "ext = drop (nat (rfind p CHR ''.'')) p"
      by (auto simp: splitext_def Let_def)
    have "CHR ''.'' \<in> set p"
    proof (rule ccontr)
      assume "CHR ''.'' \<notin> set p"
      then have "rfind p CHR ''.'' = - 1" by (rule rfind_absent)
      with gt rfind_ge [of p "CHR ''/''"] show False by simp
    qed
    then obtain a b where p: "p = a @ CHR ''.'' # b" and nodot: "CHR ''.'' \<notin> set b"
      by (meson split_list_last)
    then have di: "rfind p CHR ''.'' = int (length a)" by (simp add: rfind_last)
    have "ext = drop (length a) p" using ext di by simp
    then have e: "ext = CHR ''.'' # b" by (simp add: p)
    have "CHR ''/'' \<notin> set b"
    proof
      assume "CHR ''/'' \<in> set b"
      then obtain b1 b2 where b: "b = b1 @ CHR ''/'' # b2" and "CHR ''/'' \<notin> set b2"
        by (meson split_list_last)
      then have "rfind ((a @ CHR ''.'' # b1) @ CHR ''/'' # b2) CHR ''/''
                   = int (length (a @ CHR ''.'' # b1))"
        by (intro rfind_last)
      then have "rfind p CHR ''/'' = int (length a) + 1 + int (length b1)"
        by (simp add: p b)
      with gt di show False by simp
    qed
    with e nodot show ?thesis by simp
  qed
qed

lemma suffix_join: "suffix b (join a b)"
  by (simp add: join_def suffix_def)

lemma single_fbx_iff: "ends_with_single_fbx (rt @ ''.fbx'') \<longleftrightarrow> \<not> suffix ''.fbx'' rt"
proof -
  have "suffix ''.fbx.fbx'' (rt @ ''.fbx'') \<longleftrightarrow> suffix ''.fbx'' rt"
    using same_suffix_suffix [of "''.fbx''" "''.fbx''" rt] by simp
  then show ?thesis by (simp add: ends_with_single_fbx_def suffix_def)
qed

text \<open>
  Claim C6, as amended. For a file name that is not blank, \<open>_GetOutputFilename\<close> works
  on the stripped name, \<open>_MakeFilePathForFBX\<close> on the name as given. Each splits it
  into the root and the extension of \<open>os.path.splitext\<close>: the extension is empty, or a
  dot followed by characters that are neither dots nor separators. When the directory
  exists or can be created, the path returned is the directory joined with the root
  followed by \<open>.fbx\<close>, and nothing else: the extension is replaced, or \<open>.fbx\<close> is
  added when there is none. Otherwise \<open>None\<close> is returned. The name ends in a single
  \<open>.fbx\<close> exactly when the root does not end in \<open>.fbx\<close> itself.
\<close>

theorem fbx_extension_replaced:
  assumes "strip f \<noteq> ''''"
    and "splitext (strip f) = (rt, ext)"
    and "splitext g = (rt', ext')"
  shows "strip f = rt @ ext
       \<and> (ext = '''' \<or> (\<exists>b. ext = CHR ''.'' # b \<and> CHR ''.'' \<notin> set b \<and> CHR ''/'' \<notin> set b))
       \<and> fst (GetOutputFilename fsys isActor (Some f) fbxOutputPath app)
           = (if path_exists fsys (output_directory isActor fbxOutputPath app)
                   \<or> mkdir_ok fsys (output_directory isActor fbxOutputPath app)
              then Some (join (output_directory isActor fbxOutputPath app) (rt @ ''.fbx''))
              else None)
       \<and> (\<forall>path. fst (GetOutputFilename fsys isActor (Some f) fbxOutputPath app) = Some path
             \<longrightarrow> suffix (rt @ ''.fbx'') path)
       \<and> (ends_with_single_fbx (rt @ ''.fbx'') \<longleftrightarrow> \<not> suffix ''.fbx'' rt)
       \<and> g = rt' @ ext'
       \<and> (ext' = '''' \<or> (\<exists>b. ext' = CHR ''.'' # b \<and> CHR ''.'' \<notin> set b \<and> CHR ''/'' \<notin> set b))
       \<and> fst (MakeFilePathForFBX fsys g dir)
           = (if path_exists fsys dir \<or> mkdir_ok fsys dir
              then Some (join dir (rt' @ ''.fbx'')) else None)
       \<and> (\<forall>path. fst (MakeFilePathForFBX fsys g dir) = Some path
             \<longrightarrow> suffix (rt' @ ''.fbx'') path)
       \<and> (ends_with_single_fbx (rt' @ ''.fbx'') \<longleftrightarrow> \<not> suffix ''.fbx'' rt')"
proof -
  have a: "fst (GetOutputFilename fsys isActor (Some f) fbxOutputPath app)
           = (if path_exists fsys (output_directory isActor fbxOutputPath app)
                   \<or> mkdir_ok fsys (output_directory isActor fbxOutputPath app)
              then Some (join (output_directory isActor fbxOutputPath app) (rt @ ''.fbx''))
              else None)"
    using assms(1,2) by (simp add: GetOutputFilename_named output_name_def Let_def)
  have a': "\<forall>path. fst (GetOutputFilename fsys isActor (Some f) fbxOutputPath app) = Some path
             \<longrightarrow> suffix (rt @ ''.fbx'') path"
    by (auto simp: a suffix_join split: if_splits)
  have b: "fst (MakeFilePathForFBX fsys g dir)
           = (if path_exists fsys dir \<or> mkdir_ok fsys dir
              then Some (join dir (rt' @ ''.fbx'')) else None)"
    using assms(3) by (simp add: MakeFilePathForFBX_def makedirs_def Let_def)
  have b': "\<forall>path. fst (MakeFilePathForFBX fsys g dir) = Some path
             \<longrightarrow> suffix (rt' @ ''.fbx'') path"
    by (auto simp: b suffix_join split: if_splits)
  from a a' b b' splitext_parts [OF assms(2)] splitext_parts [OF assms(3)] show ?thesis
    by (simp only: single_fbx_iff)
qed

lemma output_directory_out: "output_directory False (Some ''out'') False = ''out''"
  by code_simp

lemma join_out_anim_fbx: "join ''out'' (''anim'' @ ''.fbx'') = ''out/anim.fbx''"
  by code_simp

theorem fbx_extension_replaced_witness:
  "strip ''anim.fbx'' \<noteq> ''''
   \<and> splitext (strip ''anim.fbx'') = (''anim'', ''.fbx'')
   \<and> splitext ''anim'' = (''anim'', '''')
   \<and> fst (GetOutputFilename fresh_fs False (Some ''anim.fbx'') (Some ''out'') False)
       = Some ''out/anim.fbx''
   \<and> fst (MakeFilePathForFBX fresh_fs ''anim'' ''out'') = Some ''out/anim.fbx''
   \<and> suffix ''anim.fbx'' ''out/anim.fbx''
   \<and> ends_with_single_fbx ''anim.fbx''"
proof -
  have h1: "strip ''anim.fbx'' \<noteq> ''''" by code_simp
  have h2: "splitext (strip ''anim.fbx'') = (''anim'', ''.fbx'')" by code_simp
  have h3: "splitext ''anim'' = (''anim'', '''')" by code_simp
  have ok: "mkdir_ok fresh_fs d" for d by (simp add: fresh_fs_def)
  have nf: "\<not> suffix ''.fbx'' ''anim''" by code_simp
  have sf: "suffix ''anim.fbx'' ''out/anim.fbx''" by code_simp
  note t = fbx_extension_replaced [OF h1 h2 h3, where fsys = fresh_fs and isActor = False
      and fbxOutputPath = "Some ''out''" and app = False and dir = "''out''"]
  from t have g: "fst (GetOutputFilename fresh_fs False (Some ''anim.fbx'') (Some ''out'') False)
             = Some ''out/anim.fbx''"
    by (simp only: ok output_directory_out join_out_anim_fbx simp_thms if_True)
  from t have m: "fst (MakeFilePathForFBX fresh_fs ''anim'' ''out'') = Some ''out/anim.fbx''"
    by (simp only: ok join_out_anim_fbx simp_thms if_True)
  from t nf have s: "ends_with_single_fbx ''anim.fbx''" by simp
  from g m s sf h1 h2 h3 show ?thesis by simp
qed

text \<open>
  Claim C6, as stated, fails for \<open>anim.fbx.bak\<close>: only the last extension is
  replaced, and the name that results carries \<open>.fbx\<close> twice.
\<close>

theorem two_fbx_extensions:
  "fst (GetOutputFilename fresh_fs False (Some ''anim.fbx.bak'') (Some ''out'') False)
     = Some ''out/anim.fbx.fbx''
   \<and> fst (MakeFilePathForFBX fresh_fs ''anim.fbx.bak'' ''out'') = Some ''out/anim.fbx.fbx''
   \<and> \<not> ends_with_single_fbx ''anim.fbx.fbx''"
  by code_simp

section \<open>The stored properties\<close>

text \<open>
  Claim C10. When the configuration file of the directory can be written,
  \<open>StoreFbxExportProperty\<close> leaves it holding the one entry \<open>p: v\<close>. Reading \<open>p\<close>
  afterwards gives \<open>v\<close>; reading any other property ends with \<open>KeyError\<close>, whatever the
  file held before.
\<close>

theorem StoreFbxExportProperty_single_entry:
  assumes "write_ok fsys (join dir ConfigJson)"
  shows "\<exists>fsys'. StoreFbxExportProperty fsys dir p v = Inr fsys'
        \<and> json_files fsys' (join dir ConfigJson) = Some [(p, v)]
        \<and> GetFbxExportProperty fsys' dir p = Inr v
        \<and> (\<forall>q. q \<noteq> p \<longrightarrow> GetFbxExportProperty fsys' dir q = Inl (KeyError q))"
  using assms
  by (simp add: StoreFbxExportProperty_def GetFbxExportProperty_def GetFbxExportPropertiesObj_def
      path_exists_def Let_def)

theorem StoreFbxExportProperty_single_entry_witness:
  "write_ok fresh_fs (join ''assets'' ConfigJson)
   \<and> (case StoreFbxExportProperty fresh_fs ''assets'' ''hipBoneName'' ''Hips'' of
         Inl e \<Rightarrow> False
       | Inr f1 \<Rightarrow>
           GetFbxExportProperty f1 ''assets'' ''hipBoneName'' = Inr ''Hips''
           \<and> (case StoreFbxExportProperty f1 ''assets'' ''rootBoneName'' ''root'' of
                 Inl e \<Rightarrow> False
               | Inr f2 \<Rightarrow>
                   GetFbxExportProperty f2 ''assets'' ''rootBoneName'' = Inr ''root''
                   \<and> GetFbxExportProperty f2 ''assets'' ''hipBoneName''
                       = Inl (KeyError ''hipBoneName'')))"
proof -
  have w0: "write_ok fresh_fs (join ''assets'' ConfigJson)"
    by (simp add: fresh_fs_def)
  from StoreFbxExportProperty_single_entry [OF w0, of "''hipBoneName''" "''Hips''"]
  obtain f1 where s1: "StoreFbxExportProperty fresh_fs ''assets'' ''hipBoneName'' ''Hips'' = Inr f1"
    and g1: "GetFbxExportProperty f1 ''assets'' ''hipBoneName'' = Inr ''Hips''"
    by blast
  have w1: "write_ok f1 (join ''assets'' ConfigJson)"
    using s1 by (auto simp: StoreFbxExportProperty_def Let_def fresh_fs_def split: if_splits)
  from StoreFbxExportProperty_single_entry [OF w1, of "''rootBoneName''" "''root''"]
  obtain f2 where s2: "StoreFbxExportProperty f1 ''assets'' ''rootBoneName'' ''root'' = Inr f2"
    and g2: "GetFbxExportProperty f2 ''assets'' ''rootBoneName'' = Inr ''root''"
    and k2: "\<forall>q. q \<noteq> ''rootBoneName'' \<longrightarrow> GetFbxExportProperty f2 ''assets'' q = Inl (KeyError q)"
    by blast
  from k2 have "GetFbxExportProperty f2 ''assets'' ''hipBoneName'' = Inl (KeyError ''hipBoneName'')"
    by simp
  with w0 s1 g1 s2 g2 show ?thesis by simp
qed

section \<open>Texture extraction\<close>











text \<open>
  The paths are restored by assignment, which frees the buffers: the image that had
  data has none after the extraction. An image that has no packed file cannot be
  loaded from the output path, where no file is yet: its save raises, and the image
  keeps the output path.
\<close>

lemma extraction_frees_buffers:
  "map has_data (images textured_scene) = [False, True]
   \<and> map has_data (images (snd (UnpackTextures ''out'' ''anim'' textured_scene))) = [False, False]"
  by code_simp

lemma file_backed_save_raises:
  "fst (UnpackTextures ''out'' ''anim'' file_backed_scene) = Inl (RuntimeError ''cloth'')
   \<and> map filepath (images (snd (UnpackTextures ''out'' ''anim'' file_backed_scene)))
       = [''out/textures/anim_cloth.png'']
   \<and> saved (snd (UnpackTextures ''out'' ''anim'' file_backed_scene)) = []"
  by code_simp

end
